theory Spec2Isabelle
  imports
    Main
    "HOL-Library.Sublist"
    "HOL-Library.AList"
    "HOL-Library.Char_ord"
    "HOL-Library.List_Lexorder"
    "HOL-Library.Product_Lexorder"
begin

section \<open>Python values and built-ins used by the filler\<close>

text \<open>
  The profile record is what \<open>yaml.safe_load\<close> returns: scalars, lists and mappings.
  A mapping is an association list in insertion order with distinct keys; lookups go
  through \<open>map_of\<close> and stores through \<open>AList.update\<close>, which overwrites in place and
  appends a new key at the end, as a Python dict does.  Python strings are sequences of
  code points; a \<open>char\<close> of the model stands for one code point, so \<open>length\<close> is
  Python's \<open>len\<close>.  Floats and dates of YAML are not modelled.
\<close>

datatype error = AttributeError | TypeError | IndexError

datatype yval =
    YNone
  | YBool bool
  | YInt int
  | YStr string
  | YList "yval list"
  | YDict "(string \<times> yval) list"

type_synonym pydict = "(string \<times> yval) list"

text \<open>Truthiness of a value (\<open>if courses:\<close>, \<open>not date\<close>).\<close>

fun py_truthy :: "yval \<Rightarrow> bool" where
  "py_truthy YNone = False"
| "py_truthy (YBool b) = b"
| "py_truthy (YInt i) = (i \<noteq> 0)"
| "py_truthy (YStr s) = (s \<noteq> [])"
| "py_truthy (YList xs) = (xs \<noteq> [])"
| "py_truthy (YDict kvs) = (kvs \<noteq> [])"

text \<open>\<open>obj.get(key, default)\<close>: only a mapping has the method.\<close>

definition dict_get :: "pydict \<Rightarrow> string \<Rightarrow> yval \<Rightarrow> yval" where
  "dict_get kvs k d = (case map_of kvs k of Some v \<Rightarrow> v | None \<Rightarrow> d)"

fun py_get :: "yval \<Rightarrow> string \<Rightarrow> yval \<Rightarrow> error + yval" where
  "py_get (YDict kvs) k d = Inr (dict_get kvs k d)"
| "py_get _ k d = Inl AttributeError"

text \<open>\<open>key in d\<close> and \<open>d[key] = value\<close> on a dict.\<close>

definition has_key :: "pydict \<Rightarrow> string \<Rightarrow> bool" where
  "has_key kvs k = (map_of kvs k \<noteq> None)"

definition dict_set :: "string \<Rightarrow> yval \<Rightarrow> pydict \<Rightarrow> pydict" where
  "dict_set k v kvs = AList.update k v kvs"

text \<open>
  What a \<open>for\<close> loop iterates over: the items of a list, the characters of a string,
  the keys of a mapping; the other values are not iterable.
\<close>

fun py_iter :: "yval \<Rightarrow> error + yval list" where
  "py_iter (YList xs) = Inr xs"
| "py_iter (YStr s) = Inr (map (\<lambda>c. YStr [c]) s)"
| "py_iter (YDict kvs) = Inr (map (\<lambda>kv. YStr (fst kv)) kvs)"
| "py_iter _ = Inl TypeError"

text \<open>Decimal rendering of integers, as \<open>str\<close> and f-strings produce it.\<close>

definition digit_char :: "nat \<Rightarrow> char" where
  "digit_char d = ''0123456789'' ! (d mod 10)"

fun str_nat :: "nat \<Rightarrow> string" where
  "str_nat n = (if n < 10 then [digit_char n] else str_nat (n div 10) @ [digit_char (n mod 10)])"

declare str_nat.simps [simp del]

definition str_int :: "int \<Rightarrow> string" where
  "str_int i = (if i < 0 then CHR ''-'' # str_nat (nat (- i)) else str_nat (nat i))"

fun intersperse_str :: "string \<Rightarrow> string list \<Rightarrow> string" where
  "intersperse_str sep [] = []"
| "intersperse_str sep [s] = s"
| "intersperse_str sep (s # t # ss) = s @ sep @ intersperse_str sep (t # ss)"

text \<open>
  \<open>str(value)\<close>.  For a string it is the string itself, which is the case every
  property below is about.  For a list or a mapping Python prints the \<open>repr\<close> of the
  items; the model quotes item strings with single quotes and does not escape quotes or
  control characters inside them.
\<close>

fun py_repr :: "yval \<Rightarrow> string" where
  "py_repr YNone = ''None''"
| "py_repr (YBool b) = (if b then ''True'' else ''False'')"
| "py_repr (YInt i) = str_int i"
| "py_repr (YStr s) = [CHR 0x27] @ s @ [CHR 0x27]"
| "py_repr (YList xs) = ''['' @ intersperse_str '', '' (map py_repr xs) @ '']''"
| "py_repr (YDict kvs) =
     ''{'' @ intersperse_str '', ''
        (map (\<lambda>kv. [CHR 0x27] @ fst kv @ [CHR 0x27] @ '': '' @ py_repr (snd kv)) kvs) @ ''}''"

fun py_str :: "yval \<Rightarrow> string" where
  "py_str (YStr s) = s"
| "py_str v = py_repr v"

text \<open>\<open>sep.join(items)\<close> raises \<open>TypeError\<close> unless every item is a string.\<close>

fun the_strings :: "yval list \<Rightarrow> string list option" where
  "the_strings [] = Some []"
| "the_strings (YStr s # vs) = map_option ((#) s) (the_strings vs)"
| "the_strings (_ # vs) = None"

definition py_join :: "string \<Rightarrow> yval list \<Rightarrow> error + string" where
  "py_join sep items =
     (case the_strings items of None \<Rightarrow> Inl TypeError | Some ss \<Rightarrow> Inr (intersperse_str sep ss))"

text \<open>\<open>text.find(sub)\<close>: the lowest offset at which \<open>sub\<close> occurs, \<open>None\<close> for \<open>-1\<close>.\<close>

fun py_find :: "string \<Rightarrow> string \<Rightarrow> nat option" where
  "py_find [] sub = (if sub = [] then Some 0 else None)"
| "py_find (c # cs) sub =
     (if prefix sub (c # cs) then Some 0 else map_option Suc (py_find cs sub))"

text \<open>\<open>sub in text\<close>.\<close>

definition py_in :: "string \<Rightarrow> string \<Rightarrow> bool" where
  "py_in sub text = (py_find text sub \<noteq> None)"

text \<open>\<open>xs[i]\<close> with Python's negative indices, and the open slice \<open>s[i:]\<close>.\<close>

definition py_getitem :: "'a list \<Rightarrow> int \<Rightarrow> error + 'a" where
  "py_getitem xs i =
     (if 0 \<le> i \<and> i < int (length xs) then Inr (xs ! nat i)
      else if i < 0 \<and> - int (length xs) \<le> i then Inr (xs ! nat (int (length xs) + i))
      else Inl IndexError)"

definition py_slice_from :: "string \<Rightarrow> int \<Rightarrow> string" where
  "py_slice_from s i = (if 0 \<le> i then drop (nat i) s else drop (length s - nat (- i)) s)"


section \<open>The document model\<close>

text \<open>
  A run's font as the filler reads and writes it through \<open>run.font\<close>.  The size is the
  value of \<open>w:sz\<close> in half-points; \<open>font.underline\<close> is \<open>True\<close> (single), \<open>False\<close>
  (none) or a named style; the colour is \<open>font.color.rgb\<close> written as hex digits.
\<close>

datatype underline = U_single | U_none | U_style string

record font =
  font_name :: "string option"
  font_size :: "nat option"
  font_bold :: "bool option"
  font_italic :: "bool option"
  font_underline :: "underline option"
  font_color_rgb :: "string option"

record run =
  run_text :: string
  run_font :: font

text \<open>
  A hyperlink element wraps runs, each with its text nodes in order, and points to an
  external relationship; the model stores the relationship's target with the element.
\<close>

record hl_run =
  hr_font :: font
  hr_texts :: "string list"

record hyperlink =
  hl_target :: string
  hl_runs :: "hl_run list"

record pPr =
  ppr_alignment :: "string option"
  ppr_style :: "string option"
  ppr_rest :: "string list"

text \<open>The children of \<open>w:p\<close>: the properties block, runs, hyperlinks, anything else.\<close>

datatype child = PPr pPr | R run | H hyperlink | Other string

type_synonym para = "child list"

definition hyperlink_text :: "hyperlink \<Rightarrow> string" where
  "hyperlink_text h = concat (map (\<lambda>r. concat (hr_texts r)) (hl_runs h))"

fun child_text :: "child \<Rightarrow> string" where
  "child_text (R r) = run_text r"
| "child_text (H h) = hyperlink_text h"
| "child_text _ = []"

text \<open>\<open>paragraph.text\<close>: the text of the runs and hyperlinks, in document order.\<close>

definition paragraph_text :: "para \<Rightarrow> string" where
  "paragraph_text p = concat (map child_text p)"

text \<open>\<open>paragraph._element.pPr\<close>: the first properties child, if any.\<close>

fun get_pPr :: "para \<Rightarrow> pPr option" where
  "get_pPr [] = None"
| "get_pPr (PPr x # cs) = Some x"
| "get_pPr (_ # cs) = get_pPr cs"

fun is_pPr :: "child \<Rightarrow> bool" where
  "is_pPr (PPr _) = True"
| "is_pPr _ = False"

fun remove_pPr :: "para \<Rightarrow> para" where
  "remove_pPr [] = []"
| "remove_pPr (c # cs) = (if is_pPr c then cs else c # remove_pPr cs)"


section \<open>The character index of a paragraph\<close>

datatype elem = ERun run | EHyperlink hyperlink

datatype elem_type = Run_t | Hyperlink_t

type_synonym element = "elem \<times> string"

type_synonym char_entry = "nat \<times> elem_type \<times> nat"

text \<open>
  The text a hyperlink contributes to the index: of each contained run, the first text
  node that is not empty.
\<close>

definition first_text :: "string list \<Rightarrow> string" where
  "first_text ts = (case List.find (\<lambda>t. t \<noteq> []) ts of Some t \<Rightarrow> t | None \<Rightarrow> [])"

definition hyperlink_display_text :: "hyperlink \<Rightarrow> string" where
  "hyperlink_display_text h = concat (map (\<lambda>r. first_text (hr_texts r)) (hl_runs h))"

text \<open>
  The loop over the paragraph's children (lines 274-301), with \<open>elements\<close> and
  \<open>char_map\<close> as accumulators.  The tuple \<open>(element, type, text)\<close> of the source is
  a tagged element with its text.
\<close>

fun build_index ::
  "child list \<Rightarrow> element list \<Rightarrow> char_entry list \<Rightarrow> element list \<times> char_entry list" where
  "build_index [] elements char_map = (elements, char_map)"
| "build_index (R r # cs) elements char_map =
     (let elements' = elements @ [(ERun r, run_text r)];
          char_map' = char_map @
            map (\<lambda>char_offset. (length elements' - 1, Run_t, char_offset))
              [0 ..< length (run_text r)]
      in build_index cs elements' char_map')"
| "build_index (H h # cs) elements char_map =
     (let hyperlink_display = hyperlink_display_text h;
          elements' = elements @ [(EHyperlink h, hyperlink_display)];
          char_map' = char_map @
            map (\<lambda>char_offset. (length elements' - 1, Hyperlink_t, char_offset))
              [0 ..< length hyperlink_display]
      in build_index cs elements' char_map')"
| "build_index (_ # cs) elements char_map = build_index cs elements char_map"


section \<open>The placeholder scanner\<close>

text \<open>\<open>any(placeholder in full_text for placeholder in replacements.keys())\<close>\<close>

definition has_placeholder :: "pydict \<Rightarrow> string \<Rightarrow> bool" where
  "has_placeholder replacements full_text =
     list_ex (\<lambda>placeholder. py_in placeholder full_text) (map fst replacements)"

text \<open>Lines 307-311: one entry per token that occurs, at its first offset.\<close>

fun find_placeholders :: "pydict \<Rightarrow> string \<Rightarrow> (nat \<times> string \<times> yval) list" where
  "find_placeholders [] full_text = []"
| "find_placeholders ((placeholder, v) # rest) full_text =
     (case py_find full_text placeholder of
        Some pos \<Rightarrow> (pos, placeholder, v) # find_placeholders rest full_text
      | None \<Rightarrow> find_placeholders rest full_text)"

text \<open>
  Lines 317-320: sort, then take the first entry.  The tuples are ordered by offset and
  then by token; the keys of a dict are distinct, so the values are never compared.
\<close>

definition first_match :: "pydict \<Rightarrow> string \<Rightarrow> (nat \<times> string \<times> yval) option" where
  "first_match replacements full_text =
     (case sort_key (\<lambda>(pos, placeholder, v). (pos, placeholder))
             (find_placeholders replacements full_text) of
        [] \<Rightarrow> None
      | m # _ \<Rightarrow> Some m)"


section \<open>The hyperlink injector\<close>

text \<open>A run as \<open>paragraph.add_run\<close> or \<open>OxmlElement('w:r')\<close> creates it: no attribute set.\<close>

definition empty_font :: font where
  "empty_font = \<lparr>font_name = None, font_size = None, font_bold = None, font_italic = None,
     font_underline = None, font_color_rgb = None\<rparr>"

text \<open>
  \<open>_add_hyperlink\<close> (lines 18-72).  \<open>url.startswith\<close> needs a string.  The size is
  written as \<open>str(size.pt * 2)\<close>, the template's size in half-points; the model keeps
  the measure and not its decimal rendering.
\<close>

definition add_hyperlink :: "para \<Rightarrow> string \<Rightarrow> yval \<Rightarrow> run \<Rightarrow> error + para" where
  "add_hyperlink paragraph display url run_template =
     (case url of
        YStr u \<Rightarrow>
          (let url' = (if \<not> prefix ''http://'' u \<and> \<not> prefix ''https://'' u
                       then ''https://'' @ u else u);
               rPr0 = empty_font;
               rPr1 = (case font_name (run_font run_template) of
                         Some n \<Rightarrow> if n \<noteq> [] then rPr0\<lparr>font_name := Some n\<rparr> else rPr0
                       | None \<Rightarrow> rPr0);
               rPr2 = (case font_size (run_font run_template) of
                         Some sz \<Rightarrow> if sz \<noteq> 0 then rPr1\<lparr>font_size := Some sz\<rparr> else rPr1
                       | None \<Rightarrow> rPr1);
               rPr3 = rPr2\<lparr>font_color_rgb := Some ''0563C1''\<rparr>;
               rPr4 = rPr3\<lparr>font_underline := Some U_single\<rparr>;
               new_run = \<lparr>hr_font = rPr4, hr_texts = [display]\<rparr>
           in Inr (paragraph @ [H \<lparr>hl_target = url', hl_runs = [new_run]\<rparr>]))
      | _ \<Rightarrow> Inl AttributeError)"


section \<open>The run splitter and rebuilder\<close>

text \<open>
  A call either returns the paragraph it leaves behind, or raises and leaves the
  paragraph in the state reached at the raise.
\<close>

type_synonym 'a outcome = "(error \<times> 'a) + 'a"

fun final_state :: "'a outcome \<Rightarrow> 'a" where
  "final_state (Inl (e, s)) = s"
| "final_state (Inr s) = s"

datatype item =
    Text_item string run
  | Hyperlink_item string run yval
  | Existing_hyperlink hyperlink

text \<open>The template run of the fallback: the first run element (lines 340-344, 464-467).\<close>

fun first_run :: "element list \<Rightarrow> run option" where
  "first_run [] = None"
| "first_run ((ERun r, _) # es) = Some r"
| "first_run ((EHyperlink _, _) # es) = first_run es"

text \<open>Whole elements before or after the match (lines 361-367, 394-400, 476-482, 508-514).\<close>

fun sibling_items :: "element list \<Rightarrow> item list" where
  "sibling_items [] = []"
| "sibling_items ((ERun r, elem_text) # es) =
     (if elem_text \<noteq> [] then Text_item elem_text r # sibling_items es else sibling_items es)"
| "sibling_items ((EHyperlink h, elem_text) # es) = Existing_hyperlink h # sibling_items es"

text \<open>The text before the match in the start element (lines 370-374, 485-488).\<close>

fun text_before_items :: "elem \<Rightarrow> nat \<Rightarrow> item list" where
  "text_before_items (ERun r) start_offset =
     (let text_before = take start_offset (run_text r)
      in if text_before \<noteq> [] then [Text_item text_before r] else [])"
| "text_before_items (EHyperlink _) start_offset = []"

text \<open>The text after the match in the end element (lines 380-391, 494-505).\<close>

definition text_after_items :: "element list \<Rightarrow> nat \<Rightarrow> nat \<Rightarrow> item list" where
  "text_after_items elements end_elem_idx placeholder_end =
     (if end_elem_idx < length elements then
        (case fst (elements ! end_elem_idx) of
           ERun r \<Rightarrow>
             (let chars_before_end = sum_list (map (\<lambda>e. length (snd e)) (take end_elem_idx elements));
                  end_offset = int placeholder_end - int chars_before_end;
                  text_after = py_slice_from (run_text r) end_offset
              in if text_after \<noteq> [] then [Text_item text_after r] else [])
         | EHyperlink _ \<Rightarrow> [])
      else [])"

text \<open>The element holding the last character of the match (lines 333-337, 452-456).\<close>

definition end_element ::
  "char_entry list \<Rightarrow> nat \<Rightarrow> nat \<times> elem_type \<Rightarrow> error + nat \<times> elem_type" where
  "end_element char_map placeholder_end start =
     (if int placeholder_end - 1 < int (length char_map) then
        (case py_getitem char_map (int placeholder_end - 1) of
           Inl e \<Rightarrow> Inl e
         | Inr (end_elem_idx, end_elem_type, _) \<Rightarrow> Inr (end_elem_idx, end_elem_type))
      else Inr start)"

text \<open>
  Lines 402-424 and 516-538: keep a copy of the properties block, remove every child that
  is not a properties block, then put the copy back in front.
\<close>

definition clear_content :: "para \<Rightarrow> para" where
  "clear_content paragraph =
     (let saved_pPr = get_pPr paragraph;
          cleared = filter is_pPr paragraph
      in case saved_pPr of
           None \<Rightarrow> cleared
         | Some saved \<Rightarrow>
             PPr saved # (case get_pPr cleared of None \<Rightarrow> cleared | Some _ \<Rightarrow> remove_pPr cleared))"

text \<open>The new run of the plain-text path (lines 544-551).\<close>

definition new_run_plain :: "string \<Rightarrow> run \<Rightarrow> run" where
  "new_run_plain t source_run =
     (let src = run_font source_run;
          f1 = empty_font\<lparr>font_name := font_name src\<rparr>;
          f2 = f1\<lparr>font_size := font_size src\<rparr>;
          f3 = f2\<lparr>font_bold := font_bold src\<rparr>;
          f4 = f3\<lparr>font_italic := font_italic src\<rparr>;
          f5 = f4\<lparr>font_underline := font_underline src\<rparr>;
          f6 = (case font_color_rgb src of Some rgb \<Rightarrow> f5\<lparr>font_color_rgb := Some rgb\<rparr> | None \<Rightarrow> f5)
      in \<lparr>run_text = t, run_font = f6\<rparr>)"

text \<open>The new run of the hyperlink path (lines 430-434).\<close>

definition new_run_hyperlink_path :: "string \<Rightarrow> run \<Rightarrow> run" where
  "new_run_hyperlink_path t source_run =
     (let src = run_font source_run;
          f1 = empty_font\<lparr>font_name := font_name src\<rparr>;
          f2 = f1\<lparr>font_size := font_size src\<rparr>;
          f3 = f2\<lparr>font_bold := font_bold src\<rparr>;
          f4 = f3\<lparr>font_italic := font_italic src\<rparr>
      in \<lparr>run_text = t, run_font = f4\<rparr>)"

text \<open>Lines 541-555: the rebuild loop of the plain-text path.\<close>

fun rebuild_plain :: "item list \<Rightarrow> para \<Rightarrow> para" where
  "rebuild_plain [] paragraph = paragraph"
| "rebuild_plain (Text_item t source_run # items) paragraph =
     rebuild_plain items (paragraph @ [R (new_run_plain t source_run)])"
| "rebuild_plain (Existing_hyperlink h # items) paragraph =
     rebuild_plain items (paragraph @ [H h])"
| "rebuild_plain (Hyperlink_item _ _ _ # items) paragraph = rebuild_plain items paragraph"

text \<open>Lines 427-441: the rebuild loop of the hyperlink path.\<close>

fun rebuild_hyperlink :: "item list \<Rightarrow> para \<Rightarrow> para outcome" where
  "rebuild_hyperlink [] paragraph = Inr paragraph"
| "rebuild_hyperlink (Text_item t source_run # items) paragraph =
     rebuild_hyperlink items (paragraph @ [R (new_run_hyperlink_path t source_run)])"
| "rebuild_hyperlink (Hyperlink_item display source_run url # items) paragraph =
     (case add_hyperlink paragraph display url source_run of
        Inl e \<Rightarrow> Inl (e, paragraph)
      | Inr paragraph' \<Rightarrow> rebuild_hyperlink items paragraph')"
| "rebuild_hyperlink (Existing_hyperlink h # items) paragraph =
     rebuild_hyperlink items (paragraph @ [H h])"

text \<open>\<open>cv_data.get('personal_info', {}).get(field, '')\<close> (lines 351, 354).\<close>

definition profile_url :: "pydict \<Rightarrow> string \<Rightarrow> error + yval" where
  "profile_url cv_data field =
     py_get (dict_get cv_data ''personal_info'' (YDict [])) field (YStr [])"

text \<open>Lines 326-443: the match is one of the two link tokens and \<open>cv_data\<close> is given.\<close>

definition hyperlink_path ::
  "para \<Rightarrow> element list \<Rightarrow> char_entry list \<Rightarrow> nat \<Rightarrow> string \<Rightarrow> pydict \<Rightarrow> para outcome" where
  "hyperlink_path paragraph elements char_map pos placeholder cv_data =
     (if length char_map \<le> pos then Inr paragraph
      else
        (let (start_elem_idx, start_elem_type, start_offset) = char_map ! pos;
             placeholder_end = pos + length placeholder
         in case end_element char_map placeholder_end (start_elem_idx, start_elem_type) of
              Inl e \<Rightarrow> Inl (e, paragraph)
            | Inr (end_elem_idx, end_elem_type) \<Rightarrow>
               (case first_run elements of
                  None \<Rightarrow> Inr paragraph
                | Some template_run \<Rightarrow>
                   (case (if placeholder = ''{{GITHUB}}''
                          then map_sum id (Pair ''Github'') (profile_url cv_data ''github'')
                          else map_sum id (Pair ''Linkedin'') (profile_url cv_data ''linkedin'')) of
                      Inl e \<Rightarrow> Inl (e, paragraph)
                    | Inr (display_text, url) \<Rightarrow>
                       (case py_getitem elements (int start_elem_idx) of
                          Inl e \<Rightarrow> Inl (e, paragraph)
                        | Inr (start_elem, start_elem_text) \<Rightarrow>
                           (let new_content =
                                  sibling_items (take start_elem_idx elements)
                                  @ text_before_items start_elem start_offset
                                  @ [Hyperlink_item display_text template_run url]
                                  @ text_after_items elements end_elem_idx placeholder_end
                                  @ sibling_items (drop (end_elem_idx + 1) elements)
                            in rebuild_hyperlink new_content (clear_content paragraph)))))))"

text \<open>Lines 445-555: every other match.\<close>

definition plain_path ::
  "para \<Rightarrow> element list \<Rightarrow> char_entry list \<Rightarrow> nat \<Rightarrow> string \<Rightarrow> yval \<Rightarrow> para outcome" where
  "plain_path paragraph elements char_map pos placeholder v =
     (let placeholder_end = pos + length placeholder
      in if length char_map \<le> pos then Inr paragraph
         else
           (let (start_elem_idx, start_elem_type, start_offset) = char_map ! pos
            in case end_element char_map placeholder_end (start_elem_idx, start_elem_type) of
                 Inl e \<Rightarrow> Inl (e, paragraph)
               | Inr (end_elem_idx, end_elem_type) \<Rightarrow>
                  (case py_getitem elements (int start_elem_idx) of
                     Inl e \<Rightarrow> Inl (e, paragraph)
                   | Inr (start_elem, start_elem_text) \<Rightarrow>
                      (case (case start_elem of ERun r \<Rightarrow> Some r
                                              | EHyperlink _ \<Rightarrow> first_run elements) of
                         None \<Rightarrow> Inr paragraph
                       | Some template_run \<Rightarrow>
                          (let new_content =
                                 sibling_items (take start_elem_idx elements)
                                 @ text_before_items start_elem start_offset
                                 @ [Text_item (py_str v) template_run]
                                 @ text_after_items elements end_elem_idx placeholder_end
                                 @ sibling_items (drop (end_elem_idx + 1) elements)
                           in Inr (rebuild_plain new_content (clear_content paragraph)))))))"

text \<open>Truthiness of the optional \<open>cv_data\<close> argument: \<open>None\<close> and \<open>{}\<close> are false.\<close>

fun cv_truthy :: "pydict option \<Rightarrow> bool" where
  "cv_truthy None = False"
| "cv_truthy (Some d) = (d \<noteq> [])"

text \<open>\<open>_replace_in_paragraph\<close> (lines 253-555): one pass over one paragraph.\<close>

definition replace_in_paragraph :: "para \<Rightarrow> pydict \<Rightarrow> pydict option \<Rightarrow> para outcome" where
  "replace_in_paragraph paragraph replacements cv_data =
     (let full_text = paragraph_text paragraph
      in if \<not> has_placeholder replacements full_text then Inr paragraph
         else
           (let (elements, char_map) = build_index paragraph [] []
            in if elements = [] then Inr paragraph
               else
                 (case first_match replacements full_text of
                    None \<Rightarrow> Inr paragraph
                  | Some (pos, placeholder, v) \<Rightarrow>
                      (let is_hyperlink = (placeholder \<in> set [''{{GITHUB}}'', ''{{LINKEDIN}}''])
                       in if is_hyperlink \<and> cv_truthy cv_data
                          then hyperlink_path paragraph elements char_map pos placeholder
                                 (case cv_data of Some d \<Rightarrow> d | None \<Rightarrow> [])
                          else plain_path paragraph elements char_map pos placeholder v))))"


section \<open>The profile flattener\<close>

text \<open>
  The f-string keys: \<open>f'{{{{EDU_{idx}_SCHOOL}}}}'\<close> is \<open>token ''EDU'' idx ''SCHOOL''\<close>.
\<close>

definition token :: "string \<Rightarrow> nat \<Rightarrow> string \<Rightarrow> string" where
  "token family idx field = ''{{'' @ family @ ''_'' @ str_nat idx @ ''_'' @ field @ ''}}''"

text \<open>
  The separator of the joined dates is space, en dash (U+2013), space; the en dash is
  one character, written here with its code in Windows-1252.
\<close>

definition date_separator :: string where
  "date_separator = [CHR '' '', CHR 0x96, CHR '' '']"

text \<open>Lines 161-163 and 183-185: \<open>date\<close>, or else \<open>start_date\<close> and \<open>end_date\<close> joined.\<close>

definition entry_date :: "pydict \<Rightarrow> yval" where
  "entry_date entry =
     (let date = dict_get entry ''date'' (YStr [])
      in if \<not> py_truthy date \<and> has_key entry ''start_date'' \<and> has_key entry ''end_date''
         then YStr (py_str (dict_get entry ''start_date'' YNone) @ date_separator
                    @ py_str (dict_get entry ''end_date'' YNone))
         else date)"

text \<open>Lines 154-173: the body of the loop over \<open>education\<close>.\<close>

definition education_item :: "nat \<Rightarrow> yval \<Rightarrow> pydict \<Rightarrow> error + pydict" where
  "education_item idx edu replacements =
     (case edu of
        YDict e \<Rightarrow>
          (let school = dict_get e ''school'' (dict_get e ''institution'' (YStr []));
               r1 = dict_set (token ''EDU'' idx ''SCHOOL'') school replacements;
               r2 = dict_set (token ''EDU'' idx ''LOCATION'') (dict_get e ''location'' (YStr [])) r1;
               r3 = dict_set (token ''EDU'' idx ''DEGREE'') (dict_get e ''degree'' (YStr [])) r2;
               r4 = dict_set (token ''EDU'' idx ''DATE'') (entry_date e) r3;
               courses = dict_get e ''courses'' (YStr [])
           in case (case courses of
                      YList items \<Rightarrow> map_sum id YStr (py_join '', '' items)
                    | _ \<Rightarrow> Inr courses) of
                Inl err \<Rightarrow> Inl err
              | Inr courses' \<Rightarrow>
                  Inr (dict_set (token ''EDU'' idx ''COURSES'')
                         (if py_truthy courses' then courses' else YStr []) r4))
      | _ \<Rightarrow> Inl AttributeError)"

text \<open>Lines 191-192 and 240-241: one indexed token per list item, counted from 1.\<close>

fun indexed_items :: "(nat \<Rightarrow> string) \<Rightarrow> nat \<Rightarrow> yval list \<Rightarrow> pydict \<Rightarrow> pydict" where
  "indexed_items key k [] replacements = replacements"
| "indexed_items key k (x # xs) replacements =
     indexed_items key (Suc k) xs (dict_set (key k) x replacements)"

text \<open>Lines 178-196: the body of the loop over \<open>experience\<close>.\<close>

definition experience_item :: "nat \<Rightarrow> yval \<Rightarrow> pydict \<Rightarrow> error + pydict" where
  "experience_item idx exp replacements =
     (case exp of
        YDict e \<Rightarrow>
          (let r1 = dict_set (token ''EXP'' idx ''COMPANY'') (dict_get e ''company'' (YStr [])) replacements;
               r2 = dict_set (token ''EXP'' idx ''LOCATION'') (dict_get e ''location'' (YStr [])) r1;
               r3 = dict_set (token ''EXP'' idx ''TITLE'') (dict_get e ''title'' (YStr [])) r2;
               r4 = dict_set (token ''EXP'' idx ''DATE'') (entry_date e) r3;
               achievements = dict_get e ''achievements'' (YList [])
           in case achievements of
                YList items \<Rightarrow>
                  (let r5 = indexed_items
                              (\<lambda>ach_idx. token ''EXP'' idx (''ACHIEVEMENT_'' @ str_nat ach_idx)) 1 items r4
                   in case py_join [CHR 0x0A] items of
                        Inl err \<Rightarrow> Inl err
                      | Inr combined \<Rightarrow>
                          Inr (dict_set (token ''EXP'' idx ''ACHIEVEMENTS'') (YStr combined) r5))
              | _ \<Rightarrow> Inr r4)
      | _ \<Rightarrow> Inl AttributeError)"

text \<open>Lines 231-248: the body of the loop over \<open>projects\<close>.\<close>

definition project_item :: "nat \<Rightarrow> yval \<Rightarrow> pydict \<Rightarrow> error + pydict" where
  "project_item idx proj replacements =
     (case proj of
        YDict e \<Rightarrow>
          (let r1 = dict_set (token ''PROJ'' idx ''NAME'') (dict_get e ''name'' (YStr [])) replacements;
               r2 = dict_set (token ''PROJ'' idx ''DATE'') (dict_get e ''date'' (YStr [])) r1;
               descriptions0 = dict_get e ''descriptions'' (dict_get e ''description'' (YList []));
               descriptions = (case descriptions0 of YStr s \<Rightarrow> YList [YStr s] | _ \<Rightarrow> descriptions0)
           in case descriptions of
                YList items \<Rightarrow>
                  (let r3 = indexed_items
                              (\<lambda>desc_idx. token ''PROJ'' idx (''DESC_'' @ str_nat desc_idx)) 1 items r2
                   in if length items = 1
                      then Inr (dict_set (token ''PROJ'' idx ''DESC'') (items ! 0) r3)
                      else (case py_join [CHR 0x0A] items of
                              Inl err \<Rightarrow> Inl err
                            | Inr combined \<Rightarrow>
                                Inr (dict_set (token ''PROJ'' idx ''DESC'') (YStr combined) r3)))
              | _ \<Rightarrow> Inr r2)
      | _ \<Rightarrow> Inl AttributeError)"

text \<open>\<open>for idx, x in enumerate(xs, start=1)\<close> with a body that may raise.\<close>

fun enumerate_loop ::
  "(nat \<Rightarrow> yval \<Rightarrow> pydict \<Rightarrow> error + pydict) \<Rightarrow> nat \<Rightarrow> yval list \<Rightarrow> pydict \<Rightarrow> error + pydict" where
  "enumerate_loop body idx [] replacements = Inr replacements"
| "enumerate_loop body idx (x # xs) replacements =
     (case body idx x replacements of
        Inl err \<Rightarrow> Inl err
      | Inr replacements' \<Rightarrow> enumerate_loop body (Suc idx) xs replacements')"

definition list_section ::
  "(nat \<Rightarrow> yval \<Rightarrow> pydict \<Rightarrow> error + pydict) \<Rightarrow> string \<Rightarrow> pydict \<Rightarrow> pydict \<Rightarrow> error + pydict" where
  "list_section body name cv_data replacements =
     (if has_key cv_data name then
        (case py_iter (dict_get cv_data name YNone) of
           Inl err \<Rightarrow> Inl err
         | Inr xs \<Rightarrow> enumerate_loop body 1 xs replacements)
      else Inr replacements)"

text \<open>Lines 139-148.\<close>

definition personal_section :: "pydict \<Rightarrow> pydict \<Rightarrow> error + pydict" where
  "personal_section cv_data replacements =
     (if has_key cv_data ''personal_info'' then
        (case dict_get cv_data ''personal_info'' YNone of
           YDict personal \<Rightarrow>
             (let r1 = dict_set ''{{NAME}}'' (dict_get personal ''name'' (YStr [])) replacements;
                  r2 = dict_set ''{{Name}}'' (dict_get personal ''name'' (YStr [])) r1;
                  r3 = dict_set ''{{LOCATION}}'' (dict_get personal ''location'' (YStr [])) r2;
                  r4 = dict_set ''{{EMAIL}}'' (dict_get personal ''email'' (YStr [])) r3;
                  r5 = dict_set ''{{PHONE}}'' (dict_get personal ''phone'' (YStr [])) r4;
                  r6 = dict_set ''{{GITHUB}}'' (dict_get personal ''github'' (YStr [])) r5;
                  r7 = dict_set ''{{LINKEDIN}}'' (dict_get personal ''linkedin'' (YStr [])) r6
              in Inr r7)
         | _ \<Rightarrow> Inl AttributeError)
      else Inr replacements)"

text \<open>Lines 205-210 and 214-219: a list of names is joined with a comma and a space.\<close>

definition joined_if_list :: "yval \<Rightarrow> error + yval" where
  "joined_if_list v =
     (case v of YList items \<Rightarrow> map_sum id YStr (py_join '', '' items) | _ \<Rightarrow> Inr v)"

text \<open>Lines 199-226.\<close>

definition skills_section :: "pydict \<Rightarrow> pydict \<Rightarrow> error + pydict" where
  "skills_section cv_data replacements =
     (if has_key cv_data ''skills'' then
        (case dict_get cv_data ''skills'' YNone of
           YDict skills \<Rightarrow>
             (case (if has_key skills ''languages'' then
                      (case joined_if_list (dict_get skills ''languages'' YNone) of
                         Inl err \<Rightarrow> Inl err
                       | Inr langs \<Rightarrow>
                           Inr (dict_set ''{{SKILLS_LANGUAGES}}'' langs
                                  (dict_set ''{{SKILL_LANGUAGE}}'' langs replacements)))
                    else Inr replacements) of
                Inl err \<Rightarrow> Inl err
              | Inr r1 \<Rightarrow>
                 (let frameworks_key = (if has_key skills ''frameworks_tools''
                                        then ''frameworks_tools'' else ''frameworks_and_tools'')
                  in case (if has_key skills frameworks_key then
                             (case joined_if_list (dict_get skills frameworks_key YNone) of
                                Inl err \<Rightarrow> Inl err
                              | Inr frameworks \<Rightarrow>
                                  Inr (dict_set ''{{SKILLS_FRAMEWORKS_TOOLS}}'' frameworks
                                         (dict_set ''{{SKILL_FRAME_TOOL}}'' frameworks r1)))
                           else Inr r1) of
                       Inl err \<Rightarrow> Inl err
                     | Inr r2 \<Rightarrow>
                        (let r3 = (if has_key skills ''language_processing''
                                   then dict_set ''{{SKILLS_LANGUAGE_PROCESSING}}''
                                          (dict_get skills ''language_processing'' YNone) r2
                                   else r2);
                             r4 = (if has_key skills ''data_visualization''
                                   then dict_set ''{{SKILLS_DATA_VIZ}}''
                                          (dict_get skills ''data_visualization'' YNone) r3
                                   else r3)
                         in Inr r4)))
         | _ \<Rightarrow> Inr replacements)
      else Inr replacements)"

text \<open>\<open>_build_replacements\<close> (lines 128-250).\<close>

definition build_replacements :: "pydict \<Rightarrow> error + pydict" where
  "build_replacements cv_data =
     (case personal_section cv_data [] of
        Inl err \<Rightarrow> Inl err
      | Inr r1 \<Rightarrow>
         (case list_section education_item ''education'' cv_data r1 of
            Inl err \<Rightarrow> Inl err
          | Inr r2 \<Rightarrow>
             (case list_section experience_item ''experience'' cv_data r2 of
                Inl err \<Rightarrow> Inl err
              | Inr r3 \<Rightarrow>
                 (case skills_section cv_data r3 of
                    Inl err \<Rightarrow> Inl err
                  | Inr r4 \<Rightarrow> list_section project_item ''projects'' cv_data r4))))"


section \<open>The document filler\<close>

text \<open>
  The loop of lines 98-104 and 112-118: \<open>for _ in range(max_iterations)\<close> with a break.
  The second component counts the calls of \<open>_replace_in_paragraph\<close>.
\<close>

fun fill_passes :: "nat \<Rightarrow> pydict \<Rightarrow> pydict \<Rightarrow> para \<Rightarrow> para outcome \<times> nat" where
  "fill_passes 0 replacements cv_data paragraph = (Inr paragraph, 0)"
| "fill_passes (Suc n) replacements cv_data paragraph =
     (if \<not> has_placeholder replacements (paragraph_text paragraph) then (Inr paragraph, 0)
      else
        (case replace_in_paragraph paragraph replacements (Some cv_data) of
           Inl e \<Rightarrow> (Inl e, 1)
         | Inr paragraph' \<Rightarrow>
            (let (res, k) = fill_passes n replacements cv_data paragraph' in (res, Suc k))))"

definition max_iterations :: nat where
  "max_iterations = 20"

definition fill_paragraph :: "pydict \<Rightarrow> pydict \<Rightarrow> para \<Rightarrow> para outcome" where
  "fill_paragraph replacements cv_data paragraph =
     fst (fill_passes max_iterations replacements cv_data paragraph)"

text \<open>A raise in one paragraph ends the whole fill; the later paragraphs are not visited.\<close>

fun map_err :: "('a \<Rightarrow> error + 'b) \<Rightarrow> 'a list \<Rightarrow> error + 'b list" where
  "map_err f [] = Inr []"
| "map_err f (x # xs) =
     (case f x of
        Inl e \<Rightarrow> Inl e
      | Inr y \<Rightarrow> (case map_err f xs of Inl e \<Rightarrow> Inl e | Inr ys \<Rightarrow> Inr (y # ys)))"

definition fill_paragraphs :: "pydict \<Rightarrow> pydict \<Rightarrow> para list \<Rightarrow> error + para list" where
  "fill_paragraphs replacements cv_data ps =
     map_err (\<lambda>p. case fill_paragraph replacements cv_data p of
                     Inl (e, _) \<Rightarrow> Inl e
                   | Inr p' \<Rightarrow> Inr p') ps"

text \<open>
  The part of a document the filler visits: the paragraphs of the body, and the tables
  of the body as rows of cells of paragraphs.
\<close>

type_synonym table = "para list list list"

record document =
  doc_paragraphs :: "para list"
  doc_tables :: "table list"

text \<open>
  \<open>fill_template\<close> (lines 75-125) between loading the template and saving the result:
  the document loaded, the document saved.
\<close>

definition fill_template :: "document \<Rightarrow> pydict \<Rightarrow> error + document" where
  "fill_template doc cv_data =
     (case build_replacements cv_data of
        Inl e \<Rightarrow> Inl e
      | Inr replacements \<Rightarrow>
         (case fill_paragraphs replacements cv_data (doc_paragraphs doc) of
            Inl e \<Rightarrow> Inl e
          | Inr ps \<Rightarrow>
             (case map_err (map_err (map_err (fill_paragraphs replacements cv_data)))
                     (doc_tables doc) of
                Inl e \<Rightarrow> Inl e
              | Inr ts \<Rightarrow> Inr \<lparr>doc_paragraphs = ps, doc_tables = ts\<rparr>)))"


text \<open>Every paragraph the filler visits: the body's, then those of the table cells.\<close>

definition document_paragraphs :: "document \<Rightarrow> para list" where
  "document_paragraphs doc = doc_paragraphs doc @ concat (concat (concat (doc_tables doc)))"


section \<open>Notions used in the statements and proofs\<close>

fun is_hyperlink :: "child \<Rightarrow> bool" where
  "is_hyperlink (H _) = True"
| "is_hyperlink _ = False"





fun elem_text :: "elem \<Rightarrow> string" where
  "elem_text (ERun r) = run_text r"
| "elem_text (EHyperlink h) = hyperlink_text h"



fun is_link_item :: "item \<Rightarrow> bool" where
  "is_link_item (Hyperlink_item _ _ _) = True"
| "is_link_item _ = False"




section \<open>The properties block survives every pass\<close>

lemma replace_no_placeholder:
  "\<not> has_placeholder repl (paragraph_text p) \<Longrightarrow> replace_in_paragraph p repl cv = Inr p"
  by (simp add: replace_in_paragraph_def)

lemma get_pPr_append:
  "get_pPr (p @ q) = (case get_pPr p of Some x \<Rightarrow> Some x | None \<Rightarrow> get_pPr q)"
  by (induction p rule: get_pPr.induct) simp_all

lemma get_pPr_filter: "get_pPr (filter is_pPr p) = get_pPr p"
  by (induction p rule: get_pPr.induct) simp_all

lemma get_pPr_clear_content: "get_pPr (clear_content p) = get_pPr p"
  by (simp add: clear_content_def Let_def get_pPr_filter split: option.splits)

lemma get_pPr_rebuild_plain: "get_pPr (rebuild_plain items q) = get_pPr q"
  by (induction items q rule: rebuild_plain.induct)
     (simp_all add: get_pPr_append split: option.splits)

lemma add_hyperlink_Inr:
  "add_hyperlink q d url t = Inr q' \<Longrightarrow> \<exists>h. q' = q @ [H h]"
  by (auto simp: add_hyperlink_def Let_def split: yval.splits)

lemma get_pPr_rebuild_hyperlink:
  "get_pPr (final_state (rebuild_hyperlink items q)) = get_pPr q"
proof (induction items q rule: rebuild_hyperlink.induct)
  case (3 d source_run url items q)
  show ?case
  proof (cases "add_hyperlink q d url source_run")
    case (Inl e)
    then show ?thesis by simp
  next
    case (Inr q')
    then obtain h where "q' = q @ [H h]"
      using add_hyperlink_Inr by blast
    with 3 Inr show ?thesis
      by (simp add: get_pPr_append split: option.splits)
  qed
qed (simp_all add: get_pPr_append split: option.splits)

lemma get_pPr_plain_path:
  "get_pPr (final_state (plain_path p es cm pos ph v)) = get_pPr p"
  by (simp add: plain_path_def Let_def get_pPr_rebuild_plain get_pPr_clear_content
      split: prod.splits sum.splits option.splits)

lemma get_pPr_hyperlink_path:
  "get_pPr (final_state (hyperlink_path p es cm pos ph cv)) = get_pPr p"
  by (simp add: hyperlink_path_def Let_def get_pPr_rebuild_hyperlink get_pPr_clear_content
      split: prod.splits sum.splits option.splits)

text \<open>
  C3.  Whatever a call of \<open>_replace_in_paragraph\<close> does (no-op, plain-text rebuild,
  hyperlink rebuild, or a raise in the middle of the rebuild), the paragraph it leaves
  behind has the properties block the paragraph had before the call.
\<close>

theorem pPr_preserved:
  "get_pPr (final_state (replace_in_paragraph p repl cv)) = get_pPr p"
  by (simp add: replace_in_paragraph_def Let_def get_pPr_plain_path get_pPr_hyperlink_path
      split: prod.splits option.splits)


section \<open>The pass loop\<close>

lemma fill_passes_no_placeholder:
  "\<not> has_placeholder repl (paragraph_text p) \<Longrightarrow> fill_passes n repl cv p = (Inr p, 0)"
  by (cases n) simp_all

lemma map_err_id: "(\<And>x. x \<in> set xs \<Longrightarrow> f x = Inr x) \<Longrightarrow> map_err f xs = Inr xs"
  by (induction xs) simp_all

lemma fill_paragraphs_id:
  assumes "\<And>p. p \<in> set ps \<Longrightarrow> \<not> has_placeholder repl (paragraph_text p)"
  shows "fill_paragraphs repl cv ps = Inr ps"
  unfolding fill_paragraphs_def
  by (rule map_err_id) (simp add: fill_paragraph_def fill_passes_no_placeholder assms)




lemma map_err_Inr: "map_err f xs = Inr ys \<Longrightarrow> ys = map (\<lambda>x. projr (f x)) xs"
  by (induction xs arbitrary: ys) (auto split: sum.splits)




section \<open>A stale index\<close>

lemma plain_path_stale: "length cm \<le> pos \<Longrightarrow> plain_path p es cm pos ph v = Inr p"
  by (simp add: plain_path_def)

lemma hyperlink_path_stale: "length cm \<le> pos \<Longrightarrow> hyperlink_path p es cm pos ph cv = Inr p"
  by (simp add: hyperlink_path_def)

text \<open>
  C7.  When the offset of the match chosen by the scanner is not an index of the
  character index (the rendered text is longer than the index), the call returns
  normally and the paragraph is exactly the one it was given, on either path.
\<close>

theorem stale_index_is_noop:
  assumes "first_match repl (paragraph_text p) = Some (pos, ph, v)"
      and "length (snd (build_index p [] [])) \<le> pos"
  shows "replace_in_paragraph p repl cv = Inr p"
  using assms
  by (cases "build_index p [] []")
     (simp add: replace_in_paragraph_def Let_def plain_path_stale hyperlink_path_stale)

theorem stale_index_is_noop_witness:
  "first_match [(''{{NAME}}'', YStr ''J'')]
     (paragraph_text [H \<lparr>hl_target = ''u'',
        hl_runs = [\<lparr>hr_font = empty_font, hr_texts = [''ab'', ''{{NAME}}'']\<rparr>]\<rparr>])
     = Some (2, ''{{NAME}}'', YStr ''J'')
   \<and> length (snd (build_index [H \<lparr>hl_target = ''u'',
        hl_runs = [\<lparr>hr_font = empty_font, hr_texts = [''ab'', ''{{NAME}}'']\<rparr>]\<rparr>] [] [])) \<le> 2
   \<and> replace_in_paragraph [H \<lparr>hl_target = ''u'',
        hl_runs = [\<lparr>hr_font = empty_font, hr_texts = [''ab'', ''{{NAME}}'']\<rparr>]\<rparr>]
        [(''{{NAME}}'', YStr ''J'')] None
       = Inr [H \<lparr>hl_target = ''u'',
           hl_runs = [\<lparr>hr_font = empty_font, hr_texts = [''ab'', ''{{NAME}}'']\<rparr>]\<rparr>]"
proof -
  let ?p = "[H \<lparr>hl_target = ''u'',
        hl_runs = [\<lparr>hr_font = empty_font, hr_texts = [''ab'', ''{{NAME}}'']\<rparr>]\<rparr>]"
  have m: "first_match [(''{{NAME}}'', YStr ''J'')] (paragraph_text ?p)
           = Some (2, ''{{NAME}}'', YStr ''J'')"
    by code_simp
  have l: "length (snd (build_index ?p [] [])) \<le> 2"
    by code_simp
  from m l stale_index_is_noop [OF m l, of None] show ?thesis by simp
qed

section \<open>Paragraphs without tokens, and the bound on passes\<close>

text \<open>
  C8.  A paragraph whose rendered text holds no token of the map is returned unchanged
  by \<open>_replace_in_paragraph\<close> and by the pass loop; so filling a document all of
  whose paragraphs (body and table cells) are free of the map's tokens gives back the
  same document.
\<close>

theorem no_token_is_noop:
  "(\<not> has_placeholder repl (paragraph_text p) \<longrightarrow>
      replace_in_paragraph p repl cv = Inr p \<and> fill_paragraph repl cvd p = Inr p)
   \<and> (build_replacements cvd = Inr repl
        \<and> (\<forall>q \<in> set (document_paragraphs doc). \<not> has_placeholder repl (paragraph_text q))
      \<longrightarrow> fill_template doc cvd = Inr doc)"
proof (intro conjI impI)
  assume "\<not> has_placeholder repl (paragraph_text p)"
  then show "replace_in_paragraph p repl cv = Inr p"
    by (rule replace_no_placeholder)
next
  assume "\<not> has_placeholder repl (paragraph_text p)"
  then show "fill_paragraph repl cvd p = Inr p"
    by (simp add: fill_paragraph_def fill_passes_no_placeholder)
next
  assume a: "build_replacements cvd = Inr repl
        \<and> (\<forall>q \<in> set (document_paragraphs doc). \<not> has_placeholder repl (paragraph_text q))"
  then have clean: "\<And>q. q \<in> set (document_paragraphs doc) \<Longrightarrow>
      \<not> has_placeholder repl (paragraph_text q)"
    by blast
  have body: "fill_paragraphs repl cvd (doc_paragraphs doc) = Inr (doc_paragraphs doc)"
    by (rule fill_paragraphs_id) (simp add: clean document_paragraphs_def)
  have cell: "fill_paragraphs repl cvd c = Inr c"
    if "t \<in> set (doc_tables doc)" "r \<in> set t" "c \<in> set r" for t r c
    using that by (intro fill_paragraphs_id clean) (auto simp: document_paragraphs_def)
  have tables: "map_err (map_err (map_err (fill_paragraphs repl cvd))) (doc_tables doc)
                = Inr (doc_tables doc)"
    by (intro map_err_id cell)
  from a body tables show "fill_template doc cvd = Inr doc"
    by (simp add: fill_template_def)
qed


theorem no_token_is_noop_witness:
  "\<not> has_placeholder [(''{{NAME}}'', YStr ''J'')]
        (paragraph_text [R \<lparr>run_text = ''Hello J'', run_font = empty_font\<rparr>])
   \<and> build_replacements [(''personal_info'', YDict [(''name'', YStr ''J'')])]
       = Inr [(''{{NAME}}'', YStr ''J''), (''{{Name}}'', YStr ''J''), (''{{LOCATION}}'', YStr []),
              (''{{EMAIL}}'', YStr []), (''{{PHONE}}'', YStr []), (''{{GITHUB}}'', YStr []),
              (''{{LINKEDIN}}'', YStr [])]
   \<and> replace_in_paragraph [R \<lparr>run_text = ''Hello J'', run_font = empty_font\<rparr>]
         [(''{{NAME}}'', YStr ''J'')] None
       = Inr [R \<lparr>run_text = ''Hello J'', run_font = empty_font\<rparr>]
   \<and> fill_template
         \<lparr>doc_paragraphs = [[R \<lparr>run_text = ''Hello J'', run_font = empty_font\<rparr>]],
          doc_tables = [[[[[R \<lparr>run_text = ''cell'', run_font = empty_font\<rparr>]]]]]\<rparr>
         [(''personal_info'', YDict [(''name'', YStr ''J'')])]
       = Inr \<lparr>doc_paragraphs = [[R \<lparr>run_text = ''Hello J'', run_font = empty_font\<rparr>]],
              doc_tables = [[[[[R \<lparr>run_text = ''cell'', run_font = empty_font\<rparr>]]]]]\<rparr>"
proof -
  let ?p = "[R \<lparr>run_text = ''Hello J'', run_font = empty_font\<rparr>]"
  let ?c = "[R \<lparr>run_text = ''cell'', run_font = empty_font\<rparr>]"
  let ?doc = "\<lparr>doc_paragraphs = [?p], doc_tables = [[[[?c]]]]\<rparr>"
  let ?cv = "[(''personal_info'', YDict [(''name'', YStr ''J'')])]"
  let ?repl = "[(''{{NAME}}'', YStr ''J''), (''{{Name}}'', YStr ''J''), (''{{LOCATION}}'', YStr []),
              (''{{EMAIL}}'', YStr []), (''{{PHONE}}'', YStr []), (''{{GITHUB}}'', YStr []),
              (''{{LINKEDIN}}'', YStr [])]"
  have h1: "\<not> has_placeholder [(''{{NAME}}'', YStr ''J'')] (paragraph_text ?p)"
    by code_simp
  have h2: "build_replacements ?cv = Inr ?repl"
    by code_simp
  have h3: "\<not> has_placeholder ?repl (paragraph_text ?p)"
    by code_simp
  have h4: "\<not> has_placeholder ?repl (paragraph_text ?c)"
    by code_simp
  have h5: "\<forall>q \<in> set (document_paragraphs ?doc). \<not> has_placeholder ?repl (paragraph_text q)"
    using h3 h4 by (simp add: document_paragraphs_def)
  from h1 h2 h5
    no_token_is_noop [of "[(''{{NAME}}'', YStr ''J'')]" ?p None ?cv ?doc]
    no_token_is_noop [of ?repl ?p None ?cv ?doc]
  show ?thesis by simp
qed






section \<open>Formatting of rebuilt runs\<close>

text \<open>
  C2.  On the hyperlink path the run rebuilt for the text before the link keeps the
  name, size, bold and italic of its source run and loses its underline and colour.
\<close>

theorem hyperlink_path_drops_underline_and_colour:
  "replace_in_paragraph
     [R \<lparr>run_text = ''See {{GITHUB}}'',
         run_font = \<lparr>font_name = Some ''Arial'', font_size = Some 22, font_bold = Some True,
                     font_italic = None, font_underline = Some U_single,
                     font_color_rgb = Some ''FF0000''\<rparr>\<rparr>]
     [(''{{GITHUB}}'', YStr ''jdoe'')]
     (Some [(''personal_info'', YDict [(''github'', YStr ''jdoe'')])])
   = Inr [R \<lparr>run_text = ''See '',
             run_font = \<lparr>font_name = Some ''Arial'', font_size = Some 22, font_bold = Some True,
                         font_italic = None, font_underline = None,
                         font_color_rgb = None\<rparr>\<rparr>,
          H \<lparr>hl_target = ''https://jdoe'',
             hl_runs = [\<lparr>hr_font = \<lparr>font_name = Some ''Arial'', font_size = Some 22,
                                     font_bold = None, font_italic = None,
                                     font_underline = Some U_single,
                                     font_color_rgb = Some ''0563C1''\<rparr>,
                         hr_texts = [''Github'']\<rparr>]\<rparr>]"
  by code_simp

text \<open>On the plain-text path a rebuilt run has the whole font of its source run.\<close>

lemma new_run_plain_font: "run_font (new_run_plain t src) = run_font src"
  by (cases "font_color_rgb (run_font src)") (simp_all add: new_run_plain_def Let_def empty_font_def)

section \<open>The character index and the rendered text\<close>








lemma py_find_None: "py_find t s = None \<Longrightarrow> \<not> prefix s (drop k t)"
proof (induction t s arbitrary: k rule: py_find.induct)
  case (1 sub)
  then show ?case by (simp split: if_splits)
next
  case (2 c cs sub)
  then show ?case by (cases k) (auto split: if_splits)
qed


section \<open>The text of a rebuilt paragraph\<close>

lemma paragraph_text_append [simp]: "paragraph_text (p @ q) = paragraph_text p @ paragraph_text q"
  by (simp add: paragraph_text_def)



















section \<open>The injected hyperlink\<close>











lemma no_link_item_mem: "\<not> list_ex is_link_item items \<Longrightarrow> Hyperlink_item d t url \<notin> set items"
  by (auto simp: list_ex_iff)
































section \<open>One match per pass\<close>


section \<open>The hyperlink path needs the profile\<close>






end
